theory Spec2Isabelle
  imports Complex_Main
begin

section \<open>JavaScript values\<close>

text \<open>
  The payloads that travel through the data layer are plain JavaScript values. Numbers
  are modelled as rationals (no claim below depends on rounding; \<open>NaN\<close> and the
  infinities are not represented), \<open>Date\<close> objects by their millisecond value,
  arrays as lists and object literals as association lists of their own properties.
  BigInts and symbols are the primitives that \<open>JSON.stringify\<close>, respectively the
  string conversion of a template literal, refuse.
\<close>

datatype jsval =
    JUndefined
  | JNull
  | JBool bool
  | JNum rat
  | JStr string
  | JBigInt int
  | JSymbol string
  | JDate int
  | JArr "jsval list"
  | JObj "(string \<times> jsval) list"

text \<open>Truthiness, as tested by \<open>if (v)\<close>, \<open>!v\<close>, \<open>a && b\<close> and \<open>a || b\<close>.\<close>

fun truthy :: "jsval \<Rightarrow> bool" where
  "truthy JUndefined = False"
| "truthy JNull = False"
| "truthy (JBool b) = b"
| "truthy (JNum n) = (n \<noteq> 0)"
| "truthy (JStr s) = (s \<noteq> [])"
| "truthy (JBigInt n) = (n \<noteq> 0)"
| "truthy (JSymbol s) = True"
| "truthy (JDate t) = True"
| "truthy (JArr xs) = True"
| "truthy (JObj fs) = True"

definition js_or :: "jsval \<Rightarrow> jsval \<Rightarrow> jsval" where
  "js_or a b = (if truthy a then a else b)"

text \<open>
  Property read \<open>v.f\<close> for the property names the code uses (\<open>success\<close>, \<open>data\<close>,
  \<open>error\<close>, \<open>message\<close>, \<open>from\<close>, \<open>to\<close>, \<open>departureTime\<close>, \<open>period\<close>):
  the own property of an object literal, \<open>undefined\<close> when it is missing or when
  \<open>v\<close> is a primitive, an array or a date. Reads on \<open>null\<close> and \<open>undefined\<close>
  throw in JavaScript; every call site below tests for the two before it reads.
\<close>

fun get_field :: "jsval \<Rightarrow> string \<Rightarrow> jsval" where
  "get_field (JObj fs) f = (case map_of fs f of Some v \<Rightarrow> v | None \<Rightarrow> JUndefined)"
| "get_field v f = JUndefined"

text \<open>Thrown values: \<open>new Error(m)\<close> keeps the value passed as message.\<close>

datatype exn = Error jsval | TypeError string | Thrown jsval

text \<open>A settled promise.\<close>

datatype promise = Resolved jsval | Rejected exn

section \<open>The cache of \<open>DataManager\<close>\<close>

text \<open>
  \<open>this.cache\<close> is a \<open>Map\<close> from key strings to \<open>{data, timestamp}\<close>;
  \<open>this.cacheTimeout\<close> is the time to live in milliseconds. Every reading of
  \<open>Date.now()\<close> is an argument of the operation that takes it.
\<close>

record cache_entry =
  data :: jsval
  timestamp :: int

record data_manager =
  cache :: "string \<rightharpoonup> cache_entry"
  cacheTimeout :: int

definition constructor :: data_manager where
  "constructor = \<lparr>cache = Map.empty, cacheTimeout = 5 * 60 * 1000\<rparr>"

text \<open>
  \<open>getFromCache(key, ignoreTimeout)\<close>: \<open>null\<close> when there is no entry; when the
  timeout is not ignored and the entry is older than \<open>cacheTimeout\<close> the entry is
  deleted and \<open>null\<close> returned; otherwise the entry's data.
\<close>

definition getFromCache :: "string \<Rightarrow> bool \<Rightarrow> int \<Rightarrow> data_manager \<Rightarrow> jsval \<times> data_manager" where
  "getFromCache key ignoreTimeout now dm =
     (case cache dm key of
        None \<Rightarrow> (JNull, dm)
      | Some cached \<Rightarrow>
          if \<not> ignoreTimeout \<and> now - timestamp cached > cacheTimeout dm
          then (JNull, dm\<lparr>cache := (cache dm)(key := None)\<rparr>)
          else (data cached, dm))"

text \<open>\<open>cleanupCache()\<close> deletes every entry older than twice the timeout.\<close>

definition cleanupCache :: "int \<Rightarrow> data_manager \<Rightarrow> data_manager" where
  "cleanupCache now dm =
     dm\<lparr>cache := (\<lambda>key. case cache dm key of
                            None \<Rightarrow> None
                          | Some v \<Rightarrow> if now - timestamp v > cacheTimeout dm * 2 then None
                                      else Some v)\<rparr>"

text \<open>
  \<open>setCache(key, data)\<close> stores the entry with the clock's reading \<open>now_store\<close> and
  then sweeps, with a second reading \<open>now_sweep\<close> of the clock.
\<close>

definition setCache :: "string \<Rightarrow> jsval \<Rightarrow> int \<Rightarrow> int \<Rightarrow> data_manager \<Rightarrow> data_manager" where
  "setCache key d now_store now_sweep dm =
     cleanupCache now_sweep
       (dm\<lparr>cache := (cache dm)(key \<mapsto> \<lparr>data = d, timestamp = now_store\<rparr>)\<rparr>)"

text \<open>
  \<open>handleSettingsChange(settings)\<close>. The settings object carries
  \<open>refreshInterval\<close> or leaves it \<open>undefined\<close> (\<open>None\<close>). The settings dialog
  produces it with \<open>parseInt\<close> from the fixed option values \<open>30\<close>, \<open>60\<close>,
  \<open>300\<close> and \<open>0\<close>, so it is an integer.
\<close>

record settings =
  refreshInterval :: "int option"

definition handleSettingsChange :: "settings \<Rightarrow> data_manager \<Rightarrow> data_manager" where
  "handleSettingsChange st dm =
     (case refreshInterval st of
        None \<Rightarrow> dm
      | Some r \<Rightarrow> dm\<lparr>cacheTimeout := max r 30000\<rparr>)"

section \<open>The event bus \<open>Utils.events\<close>\<close>

text \<open>
  \<open>listeners\<close> is an object literal used as a dictionary from event names to arrays
  of callbacks. A callback is identified by a number; what it does when called is given
  by a \<open>behaviour\<close>: it may change the registry (by calling \<open>on\<close> and \<open>off\<close>) and
  it may throw. Callbacks that emit events themselves are not modelled.

  \<open>this.listeners[event]\<close> reads the own property when there is one. Without an own
  property, a name that \<open>Object.prototype\<close> defines yields the inherited member, which
  is truthy and is not an array; any other name yields \<open>undefined\<close>.
\<close>

type_synonym hid = nat

type_synonym registry = "string \<rightharpoonup> hid list"

type_synonym trace = "(hid \<times> jsval) list"

type_synonym behaviour = "hid \<Rightarrow> jsval \<Rightarrow> registry \<Rightarrow> exn option \<times> registry"

definition object_prototype_names :: "string list" where
  "object_prototype_names =
     [''constructor'', ''__defineGetter__'', ''__defineSetter__'', ''hasOwnProperty'',
      ''__lookupGetter__'', ''__lookupSetter__'', ''isPrototypeOf'',
      ''propertyIsEnumerable'', ''toString'', ''valueOf'', ''__proto__'',
      ''toLocaleString'']"

datatype slot = Missing | Handlers "hid list" | Inherited

definition lookup_listeners :: "registry \<Rightarrow> string \<Rightarrow> slot" where
  "lookup_listeners ls event =
     (case ls event of
        Some hs \<Rightarrow> Handlers hs
      | None \<Rightarrow> if event \<in> set object_prototype_names then Inherited else Missing)"

text \<open>\<open>on(event, callback)\<close>: create the array when the slot is falsy, then push.\<close>

definition on :: "string \<Rightarrow> hid \<Rightarrow> registry \<Rightarrow> exn option \<times> registry" where
  "on event callback ls =
     (case lookup_listeners ls event of
        Missing \<Rightarrow> (None, ls(event \<mapsto> [callback]))
      | Handlers hs \<Rightarrow> (None, ls(event \<mapsto> hs @ [callback]))
      | Inherited \<Rightarrow> (Some (TypeError ''push is not a function''), ls))"

text \<open>
  \<open>off(event, callback)\<close>: \<open>indexOf\<close> and \<open>splice(index, 1)\<close> remove the first
  occurrence, and nothing when there is none.
\<close>

definition off :: "string \<Rightarrow> hid \<Rightarrow> registry \<Rightarrow> exn option \<times> registry" where
  "off event callback ls =
     (case lookup_listeners ls event of
        Missing \<Rightarrow> (None, ls)
      | Handlers hs \<Rightarrow> (None, ls(event \<mapsto> remove1 callback hs))
      | Inherited \<Rightarrow> (Some (TypeError ''indexOf is not a function''), ls))"

text \<open>
  \<open>Array.prototype.forEach\<close> reads the length once, then visits the indices
  \<open>0, \<dots>, len - 1\<close> of the live array: at index \<open>k\<close> it calls the callback found
  there at that moment, and skips the index when the array has become shorter. The
  first argument counts the indices still to visit. The trace records every call made.
  \<open>on\<close> and \<open>off\<close> never remove an array, so the array stays in the registry during
  the loop.
\<close>

primrec forEach_from ::
  "behaviour \<Rightarrow> string \<Rightarrow> jsval \<Rightarrow> nat \<Rightarrow> nat \<Rightarrow> registry \<times> trace \<Rightarrow> exn option \<times> registry \<times> trace"
where
  "forEach_from beh event d 0 k st = (None, st)"
| "forEach_from beh event d (Suc n) k st =
     (case fst st event of
        None \<Rightarrow> (None, st)
      | Some arr \<Rightarrow>
          if k < length arr then
            (case beh (arr ! k) d (fst st) of
               (Some e, ls') \<Rightarrow> (Some e, ls', snd st @ [(arr ! k, d)])
             | (None, ls') \<Rightarrow> forEach_from beh event d n (Suc k) (ls', snd st @ [(arr ! k, d)]))
          else forEach_from beh event d n (Suc k) st)"

text \<open>\<open>emit(event, data)\<close>.\<close>

definition emit :: "behaviour \<Rightarrow> string \<Rightarrow> jsval \<Rightarrow> registry \<times> trace \<Rightarrow> exn option \<times> registry \<times> trace" where
  "emit beh event d st =
     (case lookup_listeners (fst st) event of
        Missing \<Rightarrow> (None, st)
      | Handlers hs \<Rightarrow> forEach_from beh event d (length hs) 0 st
      | Inherited \<Rightarrow> (Some (TypeError ''forEach is not a function''), st))"

text \<open>The callbacks registered for an event: the own array, if any.\<close>

definition registered :: "registry \<Rightarrow> string \<Rightarrow> hid list" where
  "registered ls event = (case ls event of Some hs \<Rightarrow> hs | None \<Rightarrow> [])"

section \<open>The messenger\<close>

text \<open>
  \<open>sendMessageToBackground(message)\<close> hands the message to
  \<open>chrome.runtime.sendMessage\<close> and settles its promise in the callback. What the
  callback observes comes from the runtime: \<open>chrome.runtime.lastError\<close>
  (\<open>undefined\<close>, or an object with a \<open>message\<close>) and the \<open>response\<close> argument.
  The runtime is taken to call the callback; there is no timeout in the code.
\<close>

record callback_args =
  lastError :: jsval
  response :: jsval

text \<open>\<open>response?.error\<close>\<close>

definition optional_error :: "jsval \<Rightarrow> jsval" where
  "optional_error r = (if r = JUndefined \<or> r = JNull then JUndefined else get_field r ''error'')"

definition sendMessageToBackground :: "jsval \<Rightarrow> callback_args \<Rightarrow> promise" where
  "sendMessageToBackground message cb =
     (if truthy (lastError cb) then
        Rejected (Error (get_field (lastError cb) ''message''))
      else if truthy (response cb) \<and> truthy (get_field (response cb) ''success'') then
        Resolved (get_field (response cb) ''data'')
      else
        Rejected (Error (js_or (optional_error (response cb)) (JStr ''Unknown error''))))"

section \<open>The request coordinator of \<open>DataManager\<close>\<close>

text \<open>
  The state the three request methods work on: the data manager, the event bus with the
  trace of callback invocations, and a counter of the transport calls made
  (\<open>sendMessageToBackground\<close> or a direct fetch), kept for the statements below.
\<close>

record world =
  dm :: data_manager
  listeners :: registry
  invoked :: trace
  transport_calls :: nat

text \<open>
  Built-ins of the platform, which are parameters of the model. \<open>json_stringify v\<close>
  is the text that \<open>${JSON.stringify(v)}\<close> puts into a template literal, or the
  exception \<open>JSON.stringify\<close> throws (on a BigInt, on a cyclic object). \<open>to_string v\<close>
  is the text that \<open>${v}\<close> puts into a template literal, or the exception of the
  string conversion (on a symbol, on an object whose \<open>toString\<close> throws).
\<close>

record platform =
  json_stringify :: "jsval \<Rightarrow> exn + string"
  to_string :: "jsval \<Rightarrow> exn + string"

text \<open>
  What the surroundings supply to one request: whether \<open>chrome && chrome.runtime\<close> is
  truthy (the global \<open>chrome\<close> is declared, as in every page of an extension), what
  the callback of \<open>sendMessage\<close> observes, what the mock generator behind the direct
  fetch produces (it draws on \<open>Math.random\<close>), and the readings of \<open>Date.now()\<close> at
  the cache lookup, at the cache write, at the sweep and in the fallback generator.
\<close>

record env =
  has_runtime :: bool
  channel :: callback_args
  mock :: jsval
  now_lookup :: int
  now_store :: int
  now_sweep :: int
  now_fallback :: int

datatype kind = Traffic | Routes | Analytics

definition generateFallbackTrafficData :: "int \<Rightarrow> jsval" where
  "generateFallbackTrafficData now =
     JObj [(''points'', JArr []),
           (''summary'', JObj [(''averageCongestion'', JNum (1 / 2)),
                               (''averageSpeed'', JNum 45),
                               (''totalPoints'', JNum 0),
                               (''lastUpdated'', JNum (of_int now)),
                               (''error'', JStr ''Unable to fetch real-time data'')])]"

definition generateFallbackRoutes :: "int \<Rightarrow> jsval" where
  "generateFallbackRoutes now =
     JArr [JObj [(''id'', JStr ''fallback_route''),
                 (''name'', JStr ''Default Route''),
                 (''distance'', JNum 20000),
                 (''duration'', JNum 30),
                 (''congestion'', JNum (1 / 2)),
                 (''status'', JStr ''moderate''),
                 (''eta'', JDate (now + 30 * 60000)),
                 (''polyline'', JArr []),
                 (''incidents'', JArr []),
                 (''error'', JStr ''Unable to calculate optimal routes'')]]"

definition generateFallbackAnalytics :: jsval where
  "generateFallbackAnalytics =
     JObj [(''speedTrends'', JArr []),
           (''delayPatterns'', JArr []),
           (''congestionLevels'', JArr []),
           (''summary'', JObj [(''averageSpeed'', JNum 45),
                               (''averageDelay'', JNum 5),
                               (''peakCongestion'', JNum (7 / 10)),
                               (''error'', JStr ''Unable to fetch analytics data'')])]"

text \<open>The parameter default \<open>params = {}\<close>, which replaces \<open>undefined\<close> only.\<close>

definition default_params :: "jsval \<Rightarrow> jsval" where
  "default_params params = (if params = JUndefined then JObj [] else params)"

text \<open>
  The cache keys, computed before the \<open>try\<close> block from the value of \<open>params\<close>:
  \<open>traffic_${JSON.stringify(params)}\<close>, \<open>analytics_${JSON.stringify(params)}\<close> and
  \<open>routes_${from}_${to}_${departureTime}\<close> after
  \<open>const { from, to, departureTime } = params\<close>. The destructuring throws a
  \<open>TypeError\<close> when \<open>params\<close> is \<open>undefined\<close> or \<open>null\<close>; the serialisation
  and the string conversions throw when the platform's do. The three conversions of the
  route key run from left to right.
\<close>

definition cacheKey :: "platform \<Rightarrow> kind \<Rightarrow> jsval \<Rightarrow> exn + string" where
  "cacheKey pf k params =
     (case k of
        Traffic \<Rightarrow>
          (case json_stringify pf params of
             Inl err \<Rightarrow> Inl err
           | Inr s \<Rightarrow> Inr (''traffic_'' @ s))
      | Routes \<Rightarrow>
          if params = JUndefined \<or> params = JNull then
            Inl (TypeError ''Cannot destructure params'')
          else
            (case to_string pf (get_field params ''from'') of
               Inl err \<Rightarrow> Inl err
             | Inr a \<Rightarrow>
                 (case to_string pf (get_field params ''to'') of
                    Inl err \<Rightarrow> Inl err
                  | Inr b \<Rightarrow>
                      (case to_string pf (get_field params ''departureTime'') of
                         Inl err \<Rightarrow> Inl err
                       | Inr c \<Rightarrow> Inr (''routes_'' @ a @ ''_'' @ b @ ''_'' @ c))))
      | Analytics \<Rightarrow>
          (case json_stringify pf params of
             Inl err \<Rightarrow> Inl err
           | Inr s \<Rightarrow> Inr (''analytics_'' @ s)))"

text \<open>
  The transport of each kind: traffic and routes go to the background script when the
  runtime is there and to the direct fetch otherwise; analytics always fetches directly.
  The direct fetches for traffic and routes do not look at \<open>params\<close>; the one for
  analytics reads \<open>params.period\<close>, which throws when \<open>params\<close> is \<open>null\<close>.
\<close>

definition transport :: "env \<Rightarrow> kind \<Rightarrow> jsval \<Rightarrow> promise" where
  "transport e k params =
     (case k of
        Traffic \<Rightarrow>
          if has_runtime e then
            sendMessageToBackground
              (JObj [(''type'', JStr ''GET_TRAFFIC_DATA''), (''params'', params)]) (channel e)
          else Resolved (mock e)
      | Routes \<Rightarrow>
          if has_runtime e then
            sendMessageToBackground
              (JObj [(''type'', JStr ''GET_ROUTE_SUGGESTIONS''), (''params'', params)]) (channel e)
          else Resolved (mock e)
      | Analytics \<Rightarrow>
          if params = JUndefined \<or> params = JNull then
            Rejected (TypeError ''Cannot read properties of null'')
          else Resolved (mock e))"

definition fallback :: "env \<Rightarrow> kind \<Rightarrow> jsval" where
  "fallback e k =
     (case k of
        Traffic \<Rightarrow> generateFallbackTrafficData (now_fallback e)
      | Routes \<Rightarrow> generateFallbackRoutes (now_fallback e)
      | Analytics \<Rightarrow> generateFallbackAnalytics)"

definition event_type :: "kind \<Rightarrow> string" where
  "event_type k = (case k of Traffic \<Rightarrow> ''traffic'' | Routes \<Rightarrow> ''routes'' | Analytics \<Rightarrow> ''analytics'')"

text \<open>
  The \<open>catch\<close> block shared by the three methods:
  \<open>return this.getFromCache(cacheKey, true) || fallback\<close>.
\<close>

definition on_failure :: "env \<Rightarrow> kind \<Rightarrow> string \<Rightarrow> world \<Rightarrow> promise \<times> world" where
  "on_failure e k key w =
     (case getFromCache key True (now_fallback e) (dm w) of
        (stale, dm') \<Rightarrow> (Resolved (js_or stale (fallback e k)), w\<lparr>dm := dm'\<rparr>))"

text \<open>
  The body shared by \<open>getTrafficData\<close>, \<open>getRouteSuggestions\<close> and
  \<open>getAnalyticsData\<close>, which differ in the key, the transport, the \<open>type\<close> of the
  event and the fallback. It runs in two parts, split at the \<open>await\<close>.

  The first part runs when the method is called: compute the key, and reject when that
  throws; look the key up and settle with a truthy hit; otherwise call the transport
  and wait for it under the key.
\<close>

datatype started = Done promise | Awaiting string

definition fetch_start :: "platform \<Rightarrow> env \<Rightarrow> kind \<Rightarrow> jsval \<Rightarrow> world \<Rightarrow> started \<times> world" where
  "fetch_start pf e k params w =
     (case cacheKey pf k params of
        Inl err \<Rightarrow> (Done (Rejected err), w)
      | Inr key \<Rightarrow>
          (case getFromCache key False (now_lookup e) (dm w) of
             (cachedData, dm1) \<Rightarrow>
               if truthy cachedData then (Done (Resolved cachedData), w\<lparr>dm := dm1\<rparr>)
               else (Awaiting key, w\<lparr>dm := dm1, transport_calls := Suc (transport_calls w)\<rparr>)))"

text \<open>
  The second part runs when the transport has settled, inside the \<open>try\<close>: store the
  result and emit \<open>dataUpdated\<close>. A rejected transport and an exception thrown by a
  callback both land in the \<open>catch\<close> block.
\<close>

definition fetch_finish :: "behaviour \<Rightarrow> env \<Rightarrow> kind \<Rightarrow> jsval \<Rightarrow> string \<Rightarrow> world \<Rightarrow> promise \<times> world" where
  "fetch_finish beh e k params key w =
     (case transport e k params of
        Rejected err \<Rightarrow> on_failure e k key w
      | Resolved d \<Rightarrow>
          let w2 = w\<lparr>dm := setCache key d (now_store e) (now_sweep e) (dm w)\<rparr> in
          case emit beh ''dataUpdated''
                 (JObj [(''type'', JStr (event_type k)), (''data'', d)])
                 (listeners w2, invoked w2) of
            (None, ls', tr') \<Rightarrow> (Resolved d, w2\<lparr>listeners := ls', invoked := tr'\<rparr>)
          | (Some err, ls', tr') \<Rightarrow> on_failure e k key (w2\<lparr>listeners := ls', invoked := tr'\<rparr>))"

definition settle :: "behaviour \<Rightarrow> env \<Rightarrow> kind \<Rightarrow> jsval \<Rightarrow> started \<Rightarrow> world \<Rightarrow> promise \<times> world" where
  "settle beh e k params s w =
     (case s of
        Done r \<Rightarrow> (r, w)
      | Awaiting key \<Rightarrow> fetch_finish beh e k params key w)"

text \<open>
  One request from call to settlement, with nothing else touching the state in between:
  what other code does while the request awaits its transport is not part of it.
\<close>

definition fetch :: "platform \<Rightarrow> behaviour \<Rightarrow> env \<Rightarrow> kind \<Rightarrow> jsval \<Rightarrow> world \<Rightarrow> promise \<times> world" where
  "fetch pf beh e k params w =
     (case fetch_start pf e k params w of
        (s, w1) \<Rightarrow> settle beh e k params s w1)"

definition getTrafficData :: "platform \<Rightarrow> behaviour \<Rightarrow> env \<Rightarrow> jsval \<Rightarrow> world \<Rightarrow> promise \<times> world" where
  "getTrafficData pf beh e params w = fetch pf beh e Traffic (default_params params) w"

definition getRouteSuggestions :: "platform \<Rightarrow> behaviour \<Rightarrow> env \<Rightarrow> jsval \<Rightarrow> world \<Rightarrow> promise \<times> world" where
  "getRouteSuggestions pf beh e params w = fetch pf beh e Routes params w"

definition getAnalyticsData :: "platform \<Rightarrow> behaviour \<Rightarrow> env \<Rightarrow> jsval \<Rightarrow> world \<Rightarrow> promise \<times> world" where
  "getAnalyticsData pf beh e params w = fetch pf beh e Analytics (default_params params) w"

text \<open>
  \<open>TrafficAnalyzerBackground.getTrafficData\<close> of the background worker keeps the
  entry it read in a local variable: fresh (younger than five minutes) it is returned;
  otherwise the fetch is awaited, and when that rejects the entry read at the start is
  returned, the mock data when there was none. \<open>fetched\<close> is the outcome of
  \<open>fetchTrafficData\<close>, which as written always resolves with mock data. The key is
  computed first, outside the \<open>try\<close>.
\<close>

definition background_getTrafficData ::
  "platform \<Rightarrow> promise \<Rightarrow> jsval \<Rightarrow> int \<Rightarrow> int \<Rightarrow> jsval \<Rightarrow> (string \<rightharpoonup> cache_entry)
     \<Rightarrow> promise \<times> (string \<rightharpoonup> cache_entry)" where
  "background_getTrafficData pf fetched mock_data t_lookup t_store params dataCache =
     (case json_stringify pf (default_params params) of
        Inl err \<Rightarrow> (Rejected err, dataCache)
      | Inr s \<Rightarrow>
          let key = ''traffic_'' @ s in
          case dataCache key of
            Some cached \<Rightarrow>
              if t_lookup - timestamp cached < 300000 then (Resolved (data cached), dataCache)
              else (case fetched of
                      Resolved d \<Rightarrow> (Resolved d, dataCache(key \<mapsto> \<lparr>data = d, timestamp = t_store\<rparr>))
                    | Rejected err \<Rightarrow> (Resolved (data cached), dataCache))
          | None \<Rightarrow>
              (case fetched of
                 Resolved d \<Rightarrow> (Resolved d, dataCache(key \<mapsto> \<lparr>data = d, timestamp = t_store\<rparr>))
               | Rejected err \<Rightarrow> (Resolved mock_data, dataCache)))"

section \<open>Operations of the data manager\<close>

text \<open>\<open>clearCache()\<close> empties the map and emits \<open>cacheCleared\<close> without data.\<close>

definition clearCache :: "behaviour \<Rightarrow> world \<Rightarrow> exn option \<times> world" where
  "clearCache beh w =
     (let w1 = w\<lparr>dm := (dm w)\<lparr>cache := Map.empty\<rparr>\<rparr> in
      case emit beh ''cacheCleared'' JUndefined (listeners w1, invoked w1) of
        (ex, ls', tr') \<Rightarrow> (ex, w1\<lparr>listeners := ls', invoked := tr'\<rparr>))"

text \<open>An emission on the bus of a world.\<close>

definition emit_in :: "behaviour \<Rightarrow> string \<Rightarrow> jsval \<Rightarrow> world \<Rightarrow> exn option \<times> world" where
  "emit_in beh event d w =
     (case emit beh event d (listeners w, invoked w) of
        (ex, ls', tr') \<Rightarrow> (ex, w\<lparr>listeners := ls', invoked := tr'\<rparr>))"

text \<open>The value a \<open>catch\<close> clause binds for a thrown exception.\<close>

fun exn_value :: "exn \<Rightarrow> jsval" where
  "exn_value (Error m) = JObj [(''message'', m)]"
| "exn_value (TypeError m) = JObj [(''message'', JStr m)]"
| "exn_value (Thrown v) = v"

text \<open>
  The two requests of \<open>refreshAllData\<close> are started one after the other by
  \<open>Promise.all([this.getTrafficData(), this.getAnalyticsData({ period: '6h' })])\<close>
  and then complete in the order in which their transports settle. The analytics
  request awaits a direct fetch, which has settled already. The traffic request does
  the same without the runtime, and then completes first, having been started first;
  with the runtime it waits for the reply of the background script and completes after
  the analytics request. The result is the two settled promises and the state.
\<close>

definition both_requests ::
  "platform \<Rightarrow> behaviour \<Rightarrow> env \<Rightarrow> env \<Rightarrow> world \<Rightarrow> (promise \<times> promise) \<times> world" where
  "both_requests pf beh e1 e2 w =
     (let p1 = default_params JUndefined;
          p2 = JObj [(''period'', JStr ''6h'')]
      in case fetch_start pf e1 Traffic p1 w of
           (s1, w1) \<Rightarrow>
             (case fetch_start pf e2 Analytics p2 w1 of
                (s2, w2) \<Rightarrow>
                  if has_runtime e1 then
                    (case settle beh e2 Analytics p2 s2 w2 of
                       (r2, w3) \<Rightarrow>
                         (case settle beh e1 Traffic p1 s1 w3 of
                            (r1, w4) \<Rightarrow> ((r1, r2), w4)))
                  else
                    (case settle beh e1 Traffic p1 s1 w2 of
                       (r1, w3) \<Rightarrow>
                         (case settle beh e2 Analytics p2 s2 w3 of
                            (r2, w4) \<Rightarrow> ((r1, r2), w4)))))"

text \<open>
  \<open>refreshAllData()\<close>: clear the cache and emit \<open>dataRefreshRequested\<close>; an
  exception of a callback there rejects the promise. Then, inside the \<open>try\<close>, await
  the two requests and emit \<open>dataRefreshCompleted\<close>; the \<open>catch\<close> block emits
  \<open>dataRefreshFailed\<close> with the error. A request rejects only when its key cannot be
  computed, which for the two literal parameter objects no JavaScript platform does;
  for a platform parameter that does, the other request is completed here before the
  \<open>catch\<close> block runs.
\<close>

definition refreshAllData :: "platform \<Rightarrow> behaviour \<Rightarrow> env \<Rightarrow> env \<Rightarrow> world \<Rightarrow> exn option \<times> world" where
  "refreshAllData pf beh e1 e2 w =
     (case clearCache beh w of
        (Some err, w1) \<Rightarrow> (Some err, w1)
      | (None, w1) \<Rightarrow>
          (case emit_in beh ''dataRefreshRequested'' JUndefined w1 of
             (Some err, w2) \<Rightarrow> (Some err, w2)
           | (None, w2) \<Rightarrow>
               (case both_requests pf beh e1 e2 w2 of
                  ((Rejected err, r2), w3) \<Rightarrow> emit_in beh ''dataRefreshFailed'' (exn_value err) w3
                | ((Resolved d1, Rejected err), w3) \<Rightarrow>
                    emit_in beh ''dataRefreshFailed'' (exn_value err) w3
                | ((Resolved d1, Resolved d2), w3) \<Rightarrow>
                    (case emit_in beh ''dataRefreshCompleted'' JUndefined w3 of
                       (None, w4) \<Rightarrow> (None, w4)
                     | (Some err, w4) \<Rightarrow> emit_in beh ''dataRefreshFailed'' (exn_value err) w4))))"

text \<open>The calls that can be made on a data manager, and a run of them.\<close>

datatype operation =
    GetTrafficData env jsval
  | GetRouteSuggestions env jsval
  | GetAnalyticsData env jsval
  | GetFromCache string bool int
  | SetCache string jsval int int
  | CleanupCache int
  | ClearCache
  | RefreshAllData env env
  | HandleSettingsChange settings

fun step :: "platform \<Rightarrow> behaviour \<Rightarrow> world \<Rightarrow> operation \<Rightarrow> world" where
  "step pf beh w (GetTrafficData e params) = snd (getTrafficData pf beh e params w)"
| "step pf beh w (GetRouteSuggestions e params) = snd (getRouteSuggestions pf beh e params w)"
| "step pf beh w (GetAnalyticsData e params) = snd (getAnalyticsData pf beh e params w)"
| "step pf beh w (GetFromCache key ig now) = w\<lparr>dm := snd (getFromCache key ig now (dm w))\<rparr>"
| "step pf beh w (SetCache key d t1 t2) = w\<lparr>dm := setCache key d t1 t2 (dm w)\<rparr>"
| "step pf beh w (CleanupCache now) = w\<lparr>dm := cleanupCache now (dm w)\<rparr>"
| "step pf beh w ClearCache = snd (clearCache beh w)"
| "step pf beh w (RefreshAllData e1 e2) = snd (refreshAllData pf beh e1 e2 w)"
| "step pf beh w (HandleSettingsChange st) = w\<lparr>dm := handleSettingsChange st (dm w)\<rparr>"

definition run :: "platform \<Rightarrow> behaviour \<Rightarrow> operation list \<Rightarrow> world \<Rightarrow> world" where
  "run pf beh ops w = foldl (step pf beh) w ops"

section \<open>The recent-visit history\<close>

text \<open>
  \<open>chrome.storage.local\<close> holds the two lists; \<open>None\<close> is a key never written.
  Entries are the objects the scripts build.
\<close>

record storage =
  visitedSites :: "jsval list option"
  recentTabs :: "jsval list option"

definition getCurrentPageData :: "string \<Rightarrow> string \<Rightarrow> string \<Rightarrow> int \<Rightarrow> jsval" where
  "getCurrentPageData href hostname title now =
     JObj [(''url'', JStr href), (''domain'', JStr hostname), (''title'', JStr title),
           (''timestamp'', JNum (of_int now))]"

text \<open>
  \<open>storePageData()\<close> of the content script: send \<open>PAGE_VISIT\<close> to the background
  (the message is the first component of the result), then read the list, put the page
  in front, cut the list after ten entries and write it back.
\<close>

definition storePageData :: "string \<Rightarrow> string \<Rightarrow> string \<Rightarrow> int \<Rightarrow> storage \<Rightarrow> jsval \<times> storage" where
  "storePageData href hostname title now st =
     (let pageData = getCurrentPageData href hostname title now;
          sites = (case visitedSites st of None \<Rightarrow> [] | Some xs \<Rightarrow> xs);
          sites1 = pageData # sites;
          sites2 = (if length sites1 > 10 then take 10 sites1 else sites1)
      in (JObj [(''type'', JStr ''PAGE_VISIT''), (''data'', pageData)],
          st\<lparr>visitedSites := Some sites2\<rparr>))"

text \<open>
  The \<open>chrome.tabs.onUpdated\<close> listener of the background worker, given
  \<open>changeInfo.status\<close>, \<open>tab.url\<close> and \<open>tab.title\<close>: a completed tab with a truthy
  URL is put in front of \<open>recentTabs\<close>, which is cut after twenty entries.
\<close>

definition tabs_onUpdated :: "jsval \<Rightarrow> jsval \<Rightarrow> jsval \<Rightarrow> int \<Rightarrow> storage \<Rightarrow> storage" where
  "tabs_onUpdated status tab_url tab_title now st =
     (if status = JStr ''complete'' \<and> truthy tab_url then
        let tabData = JObj [(''url'', tab_url), (''title'', tab_title),
                            (''timestamp'', JNum (of_int now))];
            tabs = (case recentTabs st of None \<Rightarrow> [] | Some xs \<Rightarrow> xs);
            tabs1 = tabData # tabs;
            tabs2 = (if length tabs1 > 20 then take 20 tabs1 else tabs1)
        in st\<lparr>recentTabs := Some tabs2\<rparr>
      else st)"

section \<open>Route suggestions\<close>

text \<open>
  JavaScript numbers are IEEE doubles. Every finite double is a rational number, and
  comparison and \<open>Math.round\<close> (to the nearest integer, a tie going up) are exact on
  it; what the platform rounds is the sum, the product and the reading of a decimal
  literal. These three are parameters of the model: \<open>dbl x\<close> is the double written
  as the literal \<open>x\<close>, \<open>dadd\<close> and \<open>dmul\<close> are the sum and the product of two
  doubles. Integer literals and \<open>0.5\<close> are doubles as they stand.
\<close>

record double_arith =
  dbl :: "rat \<Rightarrow> rat"
  dadd :: "rat \<Rightarrow> rat \<Rightarrow> rat"
  dmul :: "rat \<Rightarrow> rat \<Rightarrow> rat"

text \<open>
  A suggested route, with the fields that are numbers or strings; \<open>eta\<close>,
  \<open>polyline\<close>, \<open>incidents\<close> and \<open>tollCost\<close> play no part in the ordering and are
  left out. \<open>draws i\<close> gives the three values \<open>Math.random()\<close> returns in iteration
  \<open>i\<close> for the distance, the duration and the congestion factor.
\<close>

record route =
  route_id :: string
  route_name :: string
  distance :: int
  duration :: int
  congestion :: rat
  status :: string

definition Math_round :: "rat \<Rightarrow> int" where
  "Math_round x = \<lfloor>x + 1 / 2\<rfloor>"

definition getTrafficColor :: "double_arith \<Rightarrow> rat \<Rightarrow> string" where
  "getTrafficColor fl c =
     (if c \<le> dbl fl (3 / 10) then ''smooth''
      else if c \<le> dbl fl (7 / 10) then ''moderate'' else ''heavy'')"

definition index_digit :: "nat \<Rightarrow> string" where
  "index_digit i = [''0'', ''1'', ''2'', ''3''] ! i"

definition mock_route :: "double_arith \<Rightarrow> (nat \<Rightarrow> rat \<times> rat \<times> rat) \<Rightarrow> nat \<Rightarrow> route" where
  "mock_route fl draws i =
     (case draws i of (r1, r2, r3) \<Rightarrow>
        let baseDistance = dadd fl 15000 (dmul fl r1 10000);
            baseDuration = dadd fl 20 (dmul fl r2 20);
            congestionFactor = dadd fl (dbl fl (2 / 10)) (dmul fl r3 (dbl fl (8 / 10)))
        in \<lparr>route_id = ''route_'' @ index_digit i,
            route_name = [''Via Highway'', ''Scenic Route'', ''Fastest Route''] ! i,
            distance = Math_round baseDistance,
            duration = Math_round
              (dmul fl baseDuration (dadd fl 1 (dmul fl congestionFactor (1 / 2)))),
            congestion = congestionFactor,
            status = getTrafficColor fl congestionFactor\<rparr>)"

text \<open>
  \<open>generateMockRoutes\<close> builds three routes and returns
  \<open>routes.sort((a, b) => a.duration - b.duration)\<close>. \<open>Array.prototype.sort\<close> is a
  stable sort by the comparator, here a consistent one on integers.
\<close>

definition generateMockRoutes :: "double_arith \<Rightarrow> (nat \<Rightarrow> rat \<times> rat \<times> rat) \<Rightarrow> route list" where
  "generateMockRoutes fl draws = sort_key duration (map (mock_route fl draws) [0..<3])"

definition background_route :: "double_arith \<Rightarrow> (nat \<Rightarrow> rat \<times> rat \<times> rat) \<Rightarrow> nat \<Rightarrow> route" where
  "background_route fl draws i =
     (case draws i of (r1, r2, r3) \<Rightarrow>
        let baseDistance = dadd fl 15000 (dmul fl r1 10000);
            baseDuration = dadd fl 20 (dmul fl r2 20);
            congestionFactor = dadd fl (dbl fl (3 / 10)) (dmul fl r3 (dbl fl (7 / 10)))
        in \<lparr>route_id = ''route_'' @ index_digit i,
            route_name = ''Route '' @ index_digit (i + 1),
            distance = Math_round baseDistance,
            duration = Math_round
              (dmul fl baseDuration (dadd fl 1 (dmul fl congestionFactor (1 / 2)))),
            congestion = congestionFactor,
            status = (if congestionFactor \<le> dbl fl (4 / 10) then ''optimal''
                      else if congestionFactor \<le> dbl fl (7 / 10) then ''moderate''
                      else ''congested'')\<rparr>)"

text \<open>\<open>TrafficAnalyzerBackground.getRouteSuggestions\<close> sorts its three routes in place.\<close>

definition background_getRouteSuggestions :: "double_arith \<Rightarrow> (nat \<Rightarrow> rat \<times> rat \<times> rat) \<Rightarrow> route list" where
  "background_getRouteSuggestions fl draws =
     sort_key duration (map (background_route fl draws) [0..<3])"

section \<open>Concrete surroundings\<close>

text \<open>
  Inputs for the worked scenarios. The platform is described on the values the
  scenarios use: \<open>JSON.stringify\<close> gives \<open>{}\<close> for the empty object and throws on
  an object whose one property is a BigInt; the string conversion gives a string
  itself and \<open>undefined\<close> for \<open>undefined\<close>, and throws on a symbol. Then callbacks
  that do nothing, a reply of the background script carrying a payload, a reply that
  reports success without data, a closed port, surroundings that read the clock at one
  instant, a new data manager on an empty bus, a payload, an arithmetic that does not
  round, and three draws.
\<close>

fun sample_stringify :: "jsval \<Rightarrow> exn + string" where
  "sample_stringify (JObj [(k, JBigInt n)]) = Inl (TypeError ''Do not know how to serialize a BigInt'')"
| "sample_stringify v = Inr ''{}''"

fun sample_to_string :: "jsval \<Rightarrow> exn + string" where
  "sample_to_string (JSymbol s) = Inl (TypeError ''Cannot convert a Symbol value to a string'')"
| "sample_to_string (JStr s) = Inr s"
| "sample_to_string JUndefined = Inr ''undefined''"
| "sample_to_string v = Inr ''[object Object]''"

definition sample_platform :: platform where
  "sample_platform = \<lparr>json_stringify = sample_stringify, to_string = sample_to_string\<rparr>"

definition idle :: behaviour where
  "idle h d ls = (None, ls)"

definition replied :: "jsval \<Rightarrow> callback_args" where
  "replied d = \<lparr>lastError = JUndefined,
               response = JObj [(''success'', JBool True), (''data'', d)]\<rparr>"

definition replied_without_data :: callback_args where
  "replied_without_data = \<lparr>lastError = JUndefined, response = JObj [(''success'', JBool True)]\<rparr>"

definition port_closed :: callback_args where
  "port_closed =
     \<lparr>lastError = JObj [(''message'', JStr ''The message port closed before a response was received.'')],
      response = JUndefined\<rparr>"

definition at_time :: "int \<Rightarrow> callback_args \<Rightarrow> env" where
  "at_time t cb = \<lparr>has_runtime = True, channel = cb, mock = JUndefined,
                   now_lookup = t, now_store = t, now_sweep = t, now_fallback = t\<rparr>"

definition new_world :: world where
  "new_world = \<lparr>dm = constructor, listeners = Map.empty, invoked = [], transport_calls = 0\<rparr>"

definition P1 :: jsval where
  "P1 = JObj [(''points'', JArr []), (''summary'', JObj [(''region'', JStr ''New York City'')])]"

definition exact_arithmetic :: double_arith where
  "exact_arithmetic = \<lparr>dbl = (\<lambda>x. x), dadd = (\<lambda>x y. x + y), dmul = (\<lambda>x y. x * y)\<rparr>"

definition sample_draws :: "nat \<Rightarrow> rat \<times> rat \<times> rat" where
  "sample_draws i = (if i = 0 then (1 / 2, 1 / 2, 1 / 2) else if i = 1 then (0, 0, 0)
                     else (3 / 4, 3 / 4, 3 / 4))"

section \<open>Cache properties\<close>

lemma cacheTimeout_getFromCache [simp]:
  "cacheTimeout (snd (getFromCache key ig now m)) = cacheTimeout m"
  by (simp add: getFromCache_def split: option.splits)

lemma cacheTimeout_cleanupCache [simp]:
  "cacheTimeout (cleanupCache now m) = cacheTimeout m"
  by (simp add: cleanupCache_def)

lemma cacheTimeout_setCache [simp]:
  "cacheTimeout (setCache key d t1 t2 m) = cacheTimeout m"
  by (simp add: setCache_def)

lemma getFromCache_expired:
  "cache m key = Some c \<Longrightarrow> now - timestamp c > cacheTimeout m \<Longrightarrow>
   getFromCache key False now m = (JNull, m\<lparr>cache := (cache m)(key := None)\<rparr>)"
  by (simp add: getFromCache_def)

lemma getFromCache_ignoring_timeout:
  "cache m key = Some c \<Longrightarrow> getFromCache key True now m = (data c, m)"
  by (simp add: getFromCache_def)

lemma cache_setCache_same:
  "t2 - t1 \<le> cacheTimeout m * 2 \<Longrightarrow>
   cache (setCache key d t1 t2 m) key = Some \<lparr>data = d, timestamp = t1\<rparr>"
  by (simp add: setCache_def cleanupCache_def)

text \<open>
  C5. \<open>setCache(k, v)\<close> followed by \<open>getFromCache(k)\<close> returns \<open>v\<close> when less than
  the timeout has elapsed between the two; the sweep that \<open>setCache\<close> runs keeps the
  entry just written. The clock is read three times, in this order: for the entry's
  timestamp, for the sweep and for the lookup.
\<close>

theorem set_then_get_fresh:
  assumes "t_set \<le> t_sweep" and "t_sweep \<le> t_get"
    and "t_get - t_set < cacheTimeout m"
  shows "cache (setCache k v t_set t_sweep m) k = Some \<lparr>data = v, timestamp = t_set\<rparr>
       \<and> fst (getFromCache k False t_get (setCache k v t_set t_sweep m)) = v"
proof -
  from assms have "t_sweep - t_set \<le> cacheTimeout m * 2" by arith
  then have stored: "cache (setCache k v t_set t_sweep m) k = Some \<lparr>data = v, timestamp = t_set\<rparr>"
    by (rule cache_setCache_same)
  from assms(3) have "\<not> t_get - t_set > cacheTimeout (setCache k v t_set t_sweep m)"
    by simp
  with stored show ?thesis
    by (simp add: getFromCache_def)
qed

theorem set_then_get_fresh_witness:
  "(0::int) \<le> 1 \<and> (1::int) \<le> 20000 \<and> 20000 - 0 < cacheTimeout constructor
   \<and> fst (getFromCache ''traffic_{}'' False 20000
            (setCache ''traffic_{}'' (JStr ''P1'') 0 1 constructor)) = JStr ''P1''"
  using set_then_get_fresh [of 0 1 20000 constructor "''traffic_{}''" "JStr ''P1''"]
  by (simp add: constructor_def)

text \<open>
  C2. The claim: while an entry's age is between the timeout and twice the timeout,
  \<open>getFromCache(k)\<close> returns \<open>null\<close> and \<open>getFromCache(k, true)\<close> still returns
  the value, in any sequence of such calls. With a timeout of 30000 ms and \<open>P1\<close>
  written at time 0: at time 40000 the lookup that ignores the timeout returns \<open>P1\<close>
  and the plain lookup returns \<open>null\<close>; but the plain lookup deletes the entry, and
  the lookup that ignores the timeout returns \<open>null\<close> after it.
\<close>

theorem expired_get_deletes_stale_entry:
  "fst (getFromCache k True 40000
          (setCache k P1 0 0 (handleSettingsChange \<lparr>refreshInterval = Some 30000\<rparr> constructor)))
     = P1
   \<and> fst (getFromCache k False 40000
          (setCache k P1 0 0 (handleSettingsChange \<lparr>refreshInterval = Some 30000\<rparr> constructor)))
     = JNull
   \<and> fst (getFromCache k True 40001
          (snd (getFromCache k False 40000
             (setCache k P1 0 0 (handleSettingsChange \<lparr>refreshInterval = Some 30000\<rparr> constructor)))))
     = JNull
   \<and> P1 \<noteq> JNull"
  by (simp add: getFromCache_def setCache_def cleanupCache_def handleSettingsChange_def
        constructor_def P1_def)

section \<open>Event bus properties\<close>

lemma forEach_from_appending:
  assumes beh: "\<And>h ls zs. h \<in> set hs \<Longrightarrow> ls event = Some (hs @ zs) \<Longrightarrow>
                  \<exists>ls' ys. beh h d ls = (None, ls') \<and> ls' event = Some (hs @ zs @ ys)"
  shows "ls event = Some (hs @ zs) \<Longrightarrow> k + n = length hs \<Longrightarrow>
         \<exists>ls' ys. forEach_from beh event d n k (ls, tr)
                    = (None, ls', tr @ map (\<lambda>h. (h, d)) (drop k hs))
                  \<and> ls' event = Some (hs @ ys)"
proof (induction n arbitrary: k ls tr zs)
  case 0
  then show ?case by simp
next
  case (Suc n)
  from Suc.prems have k: "k < length hs" by simp
  then have mem: "hs ! k \<in> set hs" by simp
  from k have nth: "(hs @ zs) ! k = hs ! k" by (simp add: nth_append)
  from beh [of "hs ! k" ls zs] mem Suc.prems(1) obtain ls' ys
    where run: "beh (hs ! k) d ls = (None, ls')" and ls': "ls' event = Some (hs @ zs @ ys)"
    by blast
  from Suc.prems have "Suc k + n = length hs" by simp
  from Suc.IH [of ls' "zs @ ys" "Suc k" "tr @ [(hs ! k, d)]"] ls' this obtain ls'' ys'
    where rest: "forEach_from beh event d n (Suc k) (ls', tr @ [(hs ! k, d)])
                   = (None, ls'', (tr @ [(hs ! k, d)]) @ map (\<lambda>h. (h, d)) (drop (Suc k) hs))"
      and ls'': "ls'' event = Some (hs @ ys')"
    by blast
  from k have "drop k hs = hs ! k # drop (Suc k) hs" by (simp add: Cons_nth_drop_Suc)
  with Suc.prems(1) k nth run rest ls'' show ?case by simp
qed

text \<open>
  C7 (as amended). When every callback registered for the event returns normally and
  only appends to the event's array (it calls no \<open>off\<close> for this event), \<open>emit\<close>
  calls exactly the callbacks registered when it began, once per registration and in
  registration order, each with the payload; callbacks appended during the emission
  are not called. It then returns normally, unless the name has no array of its own and
  is a member of \<open>Object.prototype\<close>, where nothing is registered and \<open>emit\<close> throws.
\<close>

theorem emit_invokes_registered:
  assumes "\<forall>h \<in> set (registered ls event). \<forall>l zs.
             l event = Some (registered ls event @ zs) \<longrightarrow>
             (\<exists>l' ys. beh h d l = (None, l') \<and> l' event = Some (registered ls event @ zs @ ys))"
  shows "\<exists>ls'. emit beh event d (ls, tr)
           = (if lookup_listeners ls event = Inherited
              then Some (TypeError ''forEach is not a function'') else None,
              ls', tr @ map (\<lambda>h. (h, d)) (registered ls event))"
proof (cases "ls event")
  case None
  then show ?thesis
    by (simp add: emit_def lookup_listeners_def registered_def)
next
  case (Some hs)
  then have reg: "registered ls event = hs" by (simp add: registered_def)
  have "\<exists>ls' ys. forEach_from beh event d (length hs) 0 (ls, tr)
                    = (None, ls', tr @ map (\<lambda>h. (h, d)) (drop 0 hs))
                  \<and> ls' event = Some (hs @ ys)"
  proof (rule forEach_from_appending [where zs = "[]"])
    fix h l zs
    assume "h \<in> set hs" and "l event = Some (hs @ zs)"
    with assms reg show "\<exists>ls' ys. beh h d l = (None, ls') \<and> ls' event = Some (hs @ zs @ ys)"
      by simp
  next
    from Some show "ls event = Some (hs @ [])" by simp
  qed simp
  with Some reg show ?thesis
    by (auto simp add: emit_def lookup_listeners_def)
qed

text \<open>
  At a concrete registry: two callbacks are registered for \<open>dataUpdated\<close>; each of
  them, when called, registers callback \<open>7\<close> for the same event. The emission calls
  the two and not the callbacks added meanwhile.
\<close>

theorem emit_invokes_registered_witness:
  "\<exists>ls'. emit (\<lambda>h d. on ''dataUpdated'' 7) ''dataUpdated'' (JStr ''x'')
            ([''dataUpdated'' \<mapsto> [1, 2]], [])
          = (None, ls', [(1, JStr ''x''), (2, JStr ''x'')])"
proof -
  let ?beh = "\<lambda>(h::hid) (d::jsval). on ''dataUpdated'' 7"
  let ?ls = "[''dataUpdated'' \<mapsto> [1::nat, 2]]"
  have "\<exists>ls'. emit ?beh ''dataUpdated'' (JStr ''x'') (?ls, [])
           = (if lookup_listeners ?ls ''dataUpdated'' = Inherited
              then Some (TypeError ''forEach is not a function'') else None,
              ls', [] @ map (\<lambda>h. (h, JStr ''x'')) (registered ?ls ''dataUpdated''))"
    by (rule emit_invokes_registered) (simp add: on_def lookup_listeners_def registered_def)
  then show ?thesis
    by (simp add: lookup_listeners_def registered_def)
qed

text \<open>
  The claim as stated fails when a callback unregisters during the emission or throws.
  With callbacks \<open>1\<close> and \<open>2\<close> registered, if callback \<open>1\<close> removes itself the array
  shrinks under the loop and callback \<open>2\<close> is skipped; if callback \<open>1\<close> throws the loop
  ends there.
\<close>

theorem emit_skips_after_off_counterexample:
  "snd (snd (emit (\<lambda>h d. if h = 1 then off ''dataUpdated'' 1 else Pair None)
               ''dataUpdated'' (JStr ''x'') ([''dataUpdated'' \<mapsto> [1, 2]], [])))
     = [(1, JStr ''x'')]
   \<and> snd (snd (emit (\<lambda>h d ls. if h = 1 then (Some (Thrown (JStr ''boom'')), ls) else (None, ls))
               ''dataUpdated'' (JStr ''x'') ([''dataUpdated'' \<mapsto> [1, 2]], [])))
     = [(1, JStr ''x'')]"
  by (simp add: emit_def lookup_listeners_def off_def numeral_2_eq_2)

section \<open>Request coordinator properties\<close>

lemma on_failure_resolves:
  "\<exists>p w'. on_failure e k key w = (Resolved p, w')"
  by (simp add: on_failure_def split: prod.splits)

lemma fetch_finish_resolves:
  "\<exists>p. fst (fetch_finish beh e k params key w) = Resolved p"
  by (auto simp add: fetch_finish_def Let_def on_failure_def
        split: prod.splits promise.splits option.splits)

lemma fetch_resolves:
  "cacheKey pf k params = Inr key \<Longrightarrow> \<exists>p. fst (fetch pf beh e k params w) = Resolved p"
  using fetch_finish_resolves
  by (simp add: fetch_def fetch_start_def settle_def split: prod.splits)

lemma fetch_rejects:
  "cacheKey pf k params = Inl err \<Longrightarrow> fetch pf beh e k params w = (Rejected err, w)"
  by (simp add: fetch_def fetch_start_def settle_def)

lemma fetch_after_rejection:
  assumes "cacheKey pf k params = Inr key"
    and "transport e k params = Rejected err"
  shows "fst (fetch pf beh e k params w) = Resolved (fallback e k)
       \<or> (\<exists>c. cache (dm w) key = Some c
              \<and> fst (fetch pf beh e k params w) = Resolved (data c))"
  using assms
  by (auto simp add: fetch_def fetch_start_def settle_def fetch_finish_def on_failure_def
        getFromCache_def js_or_def split: option.splits if_splits)

lemma transport_calls_on_failure [simp]:
  "transport_calls (snd (on_failure e k key w)) = transport_calls w"
  by (simp add: on_failure_def split: prod.splits)

lemma transport_calls_fetch_finish [simp]:
  "transport_calls (snd (fetch_finish beh e k params key w)) = transport_calls w"
  by (auto simp add: fetch_finish_def Let_def split: prod.splits promise.splits option.splits)

lemma fetch_transport_calls:
  "transport_calls (snd (fetch pf beh e k params w)) \<le> Suc (transport_calls w)"
  by (auto simp add: fetch_def fetch_start_def settle_def
        split: prod.splits sum.splits started.splits)

lemma fetch_fresh_hit:
  assumes "cacheKey pf k params = Inr key"
    and "cache (dm w) key = Some c"
    and "now_lookup e - timestamp c \<le> cacheTimeout (dm w)"
    and "truthy (data c)"
  shows "fetch pf beh e k params w = (Resolved (data c), w)"
  using assms by (simp add: fetch_def fetch_start_def settle_def getFromCache_def)

lemma stale_entry_not_served:
  assumes "cacheKey pf k params = Inr key"
    and "cache (dm w) key = Some c"
    and "now_lookup e - timestamp c > cacheTimeout (dm w)"
    and "transport e k params = Rejected err"
  shows "fst (fetch pf beh e k params w) = Resolved (fallback e k)"
  using assms
  by (simp add: fetch_def fetch_start_def settle_def fetch_finish_def on_failure_def
        getFromCache_def js_or_def)

lemma background_serves_stale:
  assumes "json_stringify pf (default_params params) = Inr s"
    and "dataCache (''traffic_'' @ s) = Some c"
    and "\<not> t_lookup - timestamp c < 300000"
  shows "fst (background_getTrafficData pf (Rejected err) mock_data t_lookup t_store params dataCache)
         = Resolved (data c)"
  using assms by (simp add: background_getTrafficData_def)

lemmas scenario_defs = sample_platform_def idle_def replied_def replied_without_data_def
  port_closed_def at_time_def new_world_def P1_def constructor_def

lemmas fetch_eval = fetch_def fetch_start_def settle_def fetch_finish_def cacheKey_def
  default_params_def getFromCache_def transport_def
  sendMessageToBackground_def setCache_def cleanupCache_def emit_def lookup_listeners_def
  object_prototype_names_def on_failure_def js_or_def optional_error_def fallback_def Let_def

text \<open>
  C1. The claim: when the transport rejects and an entry older than the timeout exists
  for the key, the request resolves with that entry's value. The scenario of the
  specification: the timeout is 30000 ms, payload \<open>P1\<close> was cached at time 0 under
  the key of the empty parameter object, and at time 40000 the transport fails.
  \<open>DataManager.getTrafficData\<close> resolves with the fallback payload, not with \<open>P1\<close>:
  its first lookup deleted the expired entry, so the lookup in the \<open>catch\<close> block
  finds nothing. The background worker's \<open>getTrafficData\<close>, which keeps the entry it
  read, does resolve with \<open>P1\<close> for an entry older than its five minutes. This holds
  on every platform, \<open>s\<close> being its serialisation of the empty object.
\<close>

theorem stale_entry_lost_before_fallback:
  assumes "json_stringify pf (JObj []) = Inr s"
  shows "fst (getTrafficData pf beh (at_time 40000 port_closed) (JObj [])
          \<lparr>dm = setCache (''traffic_'' @ s) P1 0 0
                  (handleSettingsChange \<lparr>refreshInterval = Some 30000\<rparr> constructor),
           listeners = ls, invoked = tr, transport_calls = n\<rparr>)
     = Resolved (generateFallbackTrafficData 40000)
   \<and> generateFallbackTrafficData 40000 \<noteq> P1
   \<and> fst (background_getTrafficData pf (Rejected err) mock_data 400000 400000 (JObj [])
            [''traffic_'' @ s \<mapsto> \<lparr>data = P1, timestamp = 0\<rparr>])
     = Resolved P1"
  using assms
  by (simp add: getTrafficData_def fetch_eval at_time_def port_closed_def constructor_def
        handleSettingsChange_def background_getTrafficData_def generateFallbackTrafficData_def P1_def)

theorem stale_entry_lost_before_fallback_witness:
  "json_stringify sample_platform (JObj []) = Inr ''{}''
   \<and> fst (getTrafficData sample_platform idle (at_time 40000 port_closed) (JObj [])
          \<lparr>dm = setCache ''traffic_{}'' P1 0 0
                  (handleSettingsChange \<lparr>refreshInterval = Some 30000\<rparr> constructor),
           listeners = Map.empty, invoked = [], transport_calls = 0\<rparr>)
     = Resolved (generateFallbackTrafficData 40000)
   \<and> fst (background_getTrafficData sample_platform (Rejected (Error (JStr ''offline''))) JNull
            400000 400000 (JObj [])
            [''traffic_{}'' \<mapsto> \<lparr>data = P1, timestamp = 0\<rparr>])
     = Resolved P1"
proof -
  have key: "json_stringify sample_platform (JObj []) = Inr ''{}''"
    by (simp add: sample_platform_def)
  from stale_entry_lost_before_fallback [OF key, of idle Map.empty "[]" 0
      "Error (JStr ''offline'')" JNull]
  show ?thesis using key by simp
qed

text \<open>
  C3 (as amended). For every kind, surroundings and state, and every value of
  \<open>params\<close> for which the cache key can be computed, the request resolves with a
  payload; and when the transport rejects, the payload is the fallback of the kind or
  the data of the entry cached for the key.
\<close>

theorem fetch_resolves_once_keyed:
  assumes "cacheKey pf k params = Inr key"
  shows "(\<exists>p. fst (fetch pf beh e k params w) = Resolved p)
   \<and> (\<forall>err. transport e k params = Rejected err \<longrightarrow>
         fst (fetch pf beh e k params w) = Resolved (fallback e k)
         \<or> (\<exists>c. cache (dm w) key = Some c
                \<and> fst (fetch pf beh e k params w) = Resolved (data c)))"
  using fetch_resolves [OF assms] fetch_after_rejection [OF assms] by blast

theorem fetch_resolves_once_keyed_witness:
  "cacheKey sample_platform Routes (JObj [(''from'', JStr ''A''), (''to'', JStr ''B'')])
     = Inr ''routes_A_B_undefined''
   \<and> transport (at_time 8 \<lparr>lastError = JUndefined,
                          response = JObj [(''success'', JBool False), (''error'', JStr ''down'')]\<rparr>)
        Routes (JObj [(''from'', JStr ''A''), (''to'', JStr ''B'')])
     = Rejected (Error (JStr ''down''))
   \<and> fst (getRouteSuggestions sample_platform idle
        (at_time 8 \<lparr>lastError = JUndefined,
                     response = JObj [(''success'', JBool False), (''error'', JStr ''down'')]\<rparr>)
        (JObj [(''from'', JStr ''A''), (''to'', JStr ''B'')]) new_world)
     = Resolved (generateFallbackRoutes 8)"
proof -
  let ?params = "JObj [(''from'', JStr ''A''), (''to'', JStr ''B'')]"
  let ?e = "at_time 8 \<lparr>lastError = JUndefined,
                        response = JObj [(''success'', JBool False), (''error'', JStr ''down'')]\<rparr>"
  have key: "cacheKey sample_platform Routes ?params = Inr ''routes_A_B_undefined''"
    by (simp add: cacheKey_def sample_platform_def)
  have rej: "transport ?e Routes ?params = Rejected (Error (JStr ''down''))"
    by (simp add: transport_def sendMessageToBackground_def js_or_def optional_error_def at_time_def)
  have empty: "cache (dm new_world) ''routes_A_B_undefined'' = None"
    by (simp add: new_world_def constructor_def)
  from fetch_resolves_once_keyed [OF key, of idle ?e new_world] rej empty
  have "fst (fetch sample_platform idle ?e Routes ?params new_world) = Resolved (fallback ?e Routes)"
    by simp
  with key rej show ?thesis
    by (simp add: getRouteSuggestions_def fallback_def at_time_def)
qed

text \<open>
  The claim as stated fails where the key cannot be computed, which happens before the
  \<open>try\<close> block: \<open>getRouteSuggestions()\<close> called without parameters cannot
  destructure them; \<open>getTrafficData({id: 1n})\<close> cannot serialise the BigInt;
  \<open>getRouteSuggestions({from: Symbol('home'), to: 'B'})\<close> cannot convert the symbol
  to a string. Each of the three promises is rejected, whatever the transport would do.
\<close>

theorem unkeyable_params_reject_counterexample:
  "fst (getRouteSuggestions sample_platform idle (at_time 0 (replied P1)) JUndefined new_world)
     = Rejected (TypeError ''Cannot destructure params'')
   \<and> fst (getTrafficData sample_platform idle (at_time 0 (replied P1))
            (JObj [(''id'', JBigInt 1)]) new_world)
     = Rejected (TypeError ''Do not know how to serialize a BigInt'')
   \<and> fst (getRouteSuggestions sample_platform idle (at_time 0 (replied P1))
            (JObj [(''from'', JSymbol ''home''), (''to'', JStr ''B'')]) new_world)
     = Rejected (TypeError ''Cannot convert a Symbol value to a string'')"
  by (simp add: getRouteSuggestions_def getTrafficData_def default_params_def fetch_def
        fetch_start_def settle_def cacheKey_def sample_platform_def)

text \<open>
  C4 (as amended). When the key holds an entry that is not older than the timeout and
  whose data is truthy, the request resolves with that data and leaves the state as it
  was, so no transport call is made; and if that state is the one an earlier request
  with the same parameters left behind, the two requests together made at most one
  transport call.
\<close>

theorem fresh_hit_skips_transport:
  assumes "cacheKey pf k params = Inr key"
    and "cache (dm w1) key = Some c"
    and "now_lookup e2 - timestamp c \<le> cacheTimeout (dm w1)"
    and "truthy (data c)"
  shows "fetch pf beh e2 k params w1 = (Resolved (data c), w1)
       \<and> (\<forall>e1 w. w1 = snd (fetch pf beh e1 k params w) \<longrightarrow>
             transport_calls (snd (fetch pf beh e2 k params w1)) \<le> transport_calls w + 1)"
proof -
  from assms have hit: "fetch pf beh e2 k params w1 = (Resolved (data c), w1)"
    by (rule fetch_fresh_hit)
  have "transport_calls (snd (fetch pf beh e2 k params w1)) \<le> transport_calls w + 1"
    if "w1 = snd (fetch pf beh e1 k params w)" for e1 w
    using that hit fetch_transport_calls [of pf beh e1 k params w] by simp
  with hit show ?thesis by blast
qed

text \<open>
  The scenario of the specification: a request at time 0 caches \<open>P1\<close>; the request at
  time 10000 returns \<open>P1\<close> although the port is closed by then.
\<close>

theorem fresh_hit_skips_transport_witness:
  "fst (fetch sample_platform idle (at_time 10000 port_closed) Traffic (JObj [])
          (snd (fetch sample_platform idle (at_time 0 (replied P1)) Traffic (JObj []) new_world)))
     = Resolved P1
   \<and> transport_calls (snd (fetch sample_platform idle (at_time 10000 port_closed) Traffic (JObj [])
          (snd (fetch sample_platform idle (at_time 0 (replied P1)) Traffic (JObj []) new_world))))
     \<le> transport_calls new_world + 1"
proof -
  let ?w1 = "snd (fetch sample_platform idle (at_time 0 (replied P1)) Traffic (JObj []) new_world)"
  let ?c = "\<lparr>data = P1, timestamp = 0\<rparr>"
  let ?e2 = "at_time 10000 port_closed"
  have k: "cacheKey sample_platform Traffic (JObj []) = Inr ''traffic_{}''"
    by (simp add: cacheKey_def sample_platform_def)
  have c: "cache (dm ?w1) ''traffic_{}'' = Some ?c"
    by (simp add: scenario_defs fetch_eval)
  have f: "now_lookup ?e2 - timestamp ?c \<le> cacheTimeout (dm ?w1)"
    by (simp add: scenario_defs fetch_eval)
  have t: "truthy (data ?c)"
    by (simp add: P1_def)
  from fresh_hit_skips_transport [OF k c f t, of idle]
  have hit: "fetch sample_platform idle ?e2 Traffic (JObj []) ?w1 = (Resolved (data ?c), ?w1)"
    and calls: "\<forall>e1 w. ?w1 = snd (fetch sample_platform idle e1 Traffic (JObj []) w) \<longrightarrow>
             transport_calls (snd (fetch sample_platform idle ?e2 Traffic (JObj []) ?w1))
               \<le> transport_calls w + 1"
    by blast+
  from calls have "transport_calls (snd (fetch sample_platform idle ?e2 Traffic (JObj []) ?w1))
               \<le> transport_calls new_world + 1"
    by blast
  with hit show ?thesis by simp
qed

text \<open>
  The claim as stated fails for an entry whose data is falsy. The background replies
  \<open>{success: true}\<close> without data: the first request caches \<open>undefined\<close> at time 0,
  and the second request at time 1 finds the fresh entry, takes it for a miss and calls
  the transport again.
\<close>

theorem falsy_hit_calls_transport_counterexample:
  "cacheKey sample_platform Traffic (JObj []) = Inr ''traffic_{}''
   \<and> cache (dm (snd (fetch sample_platform idle (at_time 0 replied_without_data) Traffic (JObj [])
                       new_world)))
        ''traffic_{}''
     = Some \<lparr>data = JUndefined, timestamp = 0\<rparr>
   \<and> transport_calls (snd (fetch sample_platform idle (at_time 1 replied_without_data) Traffic (JObj [])
          (snd (fetch sample_platform idle (at_time 0 replied_without_data) Traffic (JObj [])
                  new_world))))
     = 2"
  by (simp add: scenario_defs fetch_eval)

section \<open>The timeout never falls below thirty seconds\<close>

lemma cacheTimeout_on_failure [simp]:
  "cacheTimeout (dm (snd (on_failure e k key w))) = cacheTimeout (dm w)"
  by (simp add: on_failure_def getFromCache_def split: option.splits)

lemma cacheTimeout_fetch_start [simp]:
  "cacheTimeout (dm (snd (fetch_start pf e k params w))) = cacheTimeout (dm w)"
  by (auto simp add: fetch_start_def getFromCache_def split: sum.splits option.splits)

lemma cacheTimeout_fetch_finish [simp]:
  "cacheTimeout (dm (snd (fetch_finish beh e k params key w))) = cacheTimeout (dm w)"
  by (auto simp add: fetch_finish_def Let_def split: prod.splits promise.splits option.splits)

lemma cacheTimeout_settle [simp]:
  "cacheTimeout (dm (snd (settle beh e k params s w))) = cacheTimeout (dm w)"
  by (simp add: settle_def split: started.splits)

lemma cacheTimeout_fetch [simp]:
  "cacheTimeout (dm (snd (fetch pf beh e k params w))) = cacheTimeout (dm w)"
proof -
  obtain s w1 where st: "fetch_start pf e k params w = (s, w1)"
    by (cases "fetch_start pf e k params w")
  with cacheTimeout_fetch_start [of pf e k params w]
  have "cacheTimeout (dm w1) = cacheTimeout (dm w)" by simp
  with st show ?thesis by (simp add: fetch_def)
qed

lemma cacheTimeout_emit_in [simp]:
  "cacheTimeout (dm (snd (emit_in beh event d w))) = cacheTimeout (dm w)"
  by (simp add: emit_in_def split: prod.splits)

lemma cacheTimeout_clearCache [simp]:
  "cacheTimeout (dm (snd (clearCache beh w))) = cacheTimeout (dm w)"
  by (simp add: clearCache_def Let_def split: prod.splits)

lemma cacheTimeout_both_requests [simp]:
  "cacheTimeout (dm (snd (both_requests pf beh e1 e2 w))) = cacheTimeout (dm w)"
proof -
  let ?p1 = "default_params JUndefined"
  let ?p2 = "JObj [(''period'', JStr ''6h'')]"
  obtain s1 w1 where a: "fetch_start pf e1 Traffic ?p1 w = (s1, w1)"
    by (cases "fetch_start pf e1 Traffic ?p1 w")
  obtain s2 w2 where b: "fetch_start pf e2 Analytics ?p2 w1 = (s2, w2)"
    by (cases "fetch_start pf e2 Analytics ?p2 w1")
  from a cacheTimeout_fetch_start [of pf e1 Traffic ?p1 w]
  have w1: "cacheTimeout (dm w1) = cacheTimeout (dm w)" by simp
  from b cacheTimeout_fetch_start [of pf e2 Analytics ?p2 w1]
  have w2: "cacheTimeout (dm w2) = cacheTimeout (dm w1)" by simp
  show ?thesis
  proof (cases "has_runtime e1")
    case True
    obtain r2 w3 where c: "settle beh e2 Analytics ?p2 s2 w2 = (r2, w3)"
      by (cases "settle beh e2 Analytics ?p2 s2 w2")
    obtain r1 w4 where d: "settle beh e1 Traffic ?p1 s1 w3 = (r1, w4)"
      by (cases "settle beh e1 Traffic ?p1 s1 w3")
    from c cacheTimeout_settle [of beh e2 Analytics ?p2 s2 w2]
    have w3: "cacheTimeout (dm w3) = cacheTimeout (dm w2)" by simp
    from d cacheTimeout_settle [of beh e1 Traffic ?p1 s1 w3]
    have "cacheTimeout (dm w4) = cacheTimeout (dm w3)" by simp
    with True a b c d w1 w2 w3 show ?thesis
      by (simp add: both_requests_def Let_def)
  next
    case False
    obtain r1 w3 where c: "settle beh e1 Traffic ?p1 s1 w2 = (r1, w3)"
      by (cases "settle beh e1 Traffic ?p1 s1 w2")
    obtain r2 w4 where d: "settle beh e2 Analytics ?p2 s2 w3 = (r2, w4)"
      by (cases "settle beh e2 Analytics ?p2 s2 w3")
    from c cacheTimeout_settle [of beh e1 Traffic ?p1 s1 w2]
    have w3: "cacheTimeout (dm w3) = cacheTimeout (dm w2)" by simp
    from d cacheTimeout_settle [of beh e2 Analytics ?p2 s2 w3]
    have "cacheTimeout (dm w4) = cacheTimeout (dm w3)" by simp
    with False a b c d w1 w2 w3 show ?thesis
      by (simp add: both_requests_def Let_def)
  qed
qed

lemma cacheTimeout_refreshAllData [simp]:
  "cacheTimeout (dm (snd (refreshAllData pf beh e1 e2 w))) = cacheTimeout (dm w)"
proof -
  have a: "\<And>ex w1. clearCache beh w = (ex, w1) \<Longrightarrow> cacheTimeout (dm w1) = cacheTimeout (dm w)"
    using cacheTimeout_clearCache [of beh w] by simp
  have b: "\<And>ev d v ex w1. emit_in beh ev d v = (ex, w1) \<Longrightarrow> cacheTimeout (dm w1) = cacheTimeout (dm v)"
  proof -
    fix ev d v ex w1 assume "emit_in beh ev d v = (ex, w1)"
    with cacheTimeout_emit_in [of beh ev d v] show "cacheTimeout (dm w1) = cacheTimeout (dm v)" by simp
  qed
  have c: "\<And>v rs w1. both_requests pf beh e1 e2 v = (rs, w1) \<Longrightarrow> cacheTimeout (dm w1) = cacheTimeout (dm v)"
  proof -
    fix v rs w1 assume "both_requests pf beh e1 e2 v = (rs, w1)"
    with cacheTimeout_both_requests [of pf beh e1 e2 v]
    show "cacheTimeout (dm w1) = cacheTimeout (dm v)" by simp
  qed
  show ?thesis
    by (auto simp add: refreshAllData_def
          split: prod.splits option.splits promise.splits dest!: a b c)
qed

lemma handleSettingsChange_clamps:
  "30000 \<le> cacheTimeout m \<Longrightarrow> 30000 \<le> cacheTimeout (handleSettingsChange st m)"
  by (simp add: handleSettingsChange_def split: option.splits)

lemma step_keeps_minimum:
  "30000 \<le> cacheTimeout (dm w) \<Longrightarrow> 30000 \<le> cacheTimeout (dm (step pf beh w op))"
  by (cases op)
     (simp_all add: getTrafficData_def getRouteSuggestions_def getAnalyticsData_def
        handleSettingsChange_clamps)

lemma run_keeps_minimum:
  "30000 \<le> cacheTimeout (dm w) \<Longrightarrow> 30000 \<le> cacheTimeout (dm (run pf beh ops w))"
  unfolding run_def
  by (induction ops arbitrary: w) (simp_all add: step_keeps_minimum)

text \<open>
  C6. The timeout is at least 30000 ms in a new data manager and after every run of
  operations on it, whatever the bus holds; and a settings change that carries a
  refresh interval \<open>r\<close> sets the timeout to the larger of \<open>r\<close> and 30000.
\<close>

theorem cacheTimeout_at_least_30000:
  "30000 \<le> cacheTimeout constructor
   \<and> 30000 \<le> cacheTimeout (dm (run pf beh ops
        \<lparr>dm = constructor, listeners = ls, invoked = tr, transport_calls = n\<rparr>))
   \<and> cacheTimeout (handleSettingsChange \<lparr>refreshInterval = Some r\<rparr> m) = max r 30000"
proof -
  have init: "30000 \<le> cacheTimeout constructor" by (simp add: constructor_def)
  then have "30000 \<le> cacheTimeout (dm \<lparr>dm = constructor, listeners = ls, invoked = tr, transport_calls = n\<rparr>)"
    by simp
  then have "30000 \<le> cacheTimeout (dm (run pf beh ops
        \<lparr>dm = constructor, listeners = ls, invoked = tr, transport_calls = n\<rparr>))"
    by (rule run_keeps_minimum)
  with init show ?thesis by (simp add: handleSettingsChange_def)
qed

section \<open>Messenger properties\<close>

text \<open>
  C8 (as amended). The promise resolves exactly when the runtime reports no error and
  the response and its \<open>success\<close> property are truthy, and then with
  \<open>response.data\<close>. Otherwise it rejects: with the runtime's message when
  \<open>lastError\<close> is set; else with \<open>response.error\<close> when that is truthy; else with
  \<open>Unknown error\<close>.
\<close>

theorem sendMessageToBackground_settles:
  "((\<exists>d. sendMessageToBackground msg cb = Resolved d) \<longleftrightarrow>
      \<not> truthy (lastError cb) \<and> truthy (response cb) \<and> truthy (get_field (response cb) ''success''))
   \<and> (\<forall>d. sendMessageToBackground msg cb = Resolved d \<longrightarrow> d = get_field (response cb) ''data'')
   \<and> (truthy (lastError cb) \<longrightarrow>
        sendMessageToBackground msg cb = Rejected (Error (get_field (lastError cb) ''message'')))
   \<and> (\<not> truthy (lastError cb)
        \<and> \<not> (truthy (response cb) \<and> truthy (get_field (response cb) ''success''))
        \<and> truthy (optional_error (response cb)) \<longrightarrow>
        sendMessageToBackground msg cb = Rejected (Error (optional_error (response cb))))
   \<and> (\<not> truthy (lastError cb)
        \<and> \<not> (truthy (response cb) \<and> truthy (get_field (response cb) ''success''))
        \<and> \<not> truthy (optional_error (response cb)) \<longrightarrow>
        sendMessageToBackground msg cb = Rejected (Error (JStr ''Unknown error'')))"
  by (simp add: sendMessageToBackground_def js_or_def)

text \<open>
  A reply with data, a closed port, a failure reported by the background script, the
  acknowledgement \<open>{status: 'received'}\<close> of the simple background worker, and no
  response at all.
\<close>

theorem sendMessageToBackground_settles_witness:
  "sendMessageToBackground (JObj [(''type'', JStr ''GET_TRAFFIC_DATA'')]) (replied P1) = Resolved P1
   \<and> sendMessageToBackground (JObj [(''type'', JStr ''GET_TRAFFIC_DATA'')]) port_closed
       = Rejected (Error (JStr ''The message port closed before a response was received.''))
   \<and> sendMessageToBackground (JObj [(''type'', JStr ''NOPE'')])
         \<lparr>lastError = JUndefined,
          response = JObj [(''success'', JBool False), (''error'', JStr ''Unknown message type'')]\<rparr>
       = Rejected (Error (JStr ''Unknown message type''))
   \<and> sendMessageToBackground (JObj [(''type'', JStr ''PAGE_VISIT'')])
         \<lparr>lastError = JUndefined, response = JObj [(''status'', JStr ''received'')]\<rparr>
       = Rejected (Error (JStr ''Unknown error''))
   \<and> sendMessageToBackground (JObj [(''type'', JStr ''PAGE_VISIT'')])
         \<lparr>lastError = JUndefined, response = JUndefined\<rparr>
       = Rejected (Error (JStr ''Unknown error''))"
  using
    sendMessageToBackground_settles [of "JObj [(''type'', JStr ''GET_TRAFFIC_DATA'')]" "replied P1"]
    sendMessageToBackground_settles [of "JObj [(''type'', JStr ''GET_TRAFFIC_DATA'')]" port_closed]
    sendMessageToBackground_settles [of "JObj [(''type'', JStr ''NOPE'')]"
      "\<lparr>lastError = JUndefined,
        response = JObj [(''success'', JBool False), (''error'', JStr ''Unknown message type'')]\<rparr>"]
    sendMessageToBackground_settles [of "JObj [(''type'', JStr ''PAGE_VISIT'')]"
      "\<lparr>lastError = JUndefined, response = JObj [(''status'', JStr ''received'')]\<rparr>"]
    sendMessageToBackground_settles [of "JObj [(''type'', JStr ''PAGE_VISIT'')]"
      "\<lparr>lastError = JUndefined, response = JUndefined\<rparr>"]
  by (auto simp add: replied_def port_closed_def optional_error_def)

text \<open>
  The claim as stated fails on two responses. A response whose \<open>success\<close> is the
  string \<open>yes\<close>, which is not \<open>true\<close>, resolves the promise. A response with
  \<open>success\<close> false and the empty string as \<open>error\<close> is rejected with
  \<open>Unknown error\<close>, not with the error it carries.
\<close>

theorem truthy_success_resolves_counterexample:
  "sendMessageToBackground (JObj [(''type'', JStr ''GET_TRAFFIC_DATA'')])
     \<lparr>lastError = JUndefined, response = JObj [(''success'', JStr ''yes''), (''data'', P1)]\<rparr>
     = Resolved P1
   \<and> get_field (JObj [(''success'', JStr ''yes''), (''data'', P1)]) ''success'' \<noteq> JBool True
   \<and> sendMessageToBackground (JObj [(''type'', JStr ''GET_TRAFFIC_DATA'')])
     \<lparr>lastError = JUndefined, response = JObj [(''success'', JBool False), (''error'', JStr [])]\<rparr>
     = Rejected (Error (JStr ''Unknown error''))
   \<and> get_field (JObj [(''success'', JBool False), (''error'', JStr [])]) ''error'' \<noteq> JStr ''Unknown error''"
  by (simp add: sendMessageToBackground_def js_or_def optional_error_def)

section \<open>History and route properties\<close>

text \<open>
  C9. After \<open>storePageData\<close> the stored \<open>visitedSites\<close> is the new page followed by
  the prior list, cut to ten entries: the new page is at index 0 and the length is at
  most 10, for every prior list. After the tab listener has run for a completed tab
  with a truthy URL, \<open>recentTabs\<close> is the new entry followed by the prior list, cut to
  twenty entries.
\<close>

theorem recent_history_capped:
  "(\<exists>sites. visitedSites (snd (storePageData href hostname title now st)) = Some sites
        \<and> sites = take 10 (getCurrentPageData href hostname title now
                            # (case visitedSites st of None \<Rightarrow> [] | Some xs \<Rightarrow> xs))
        \<and> sites ! 0 = getCurrentPageData href hostname title now
        \<and> length sites \<le> 10)
   \<and> (s = JStr ''complete'' \<and> truthy tab_url \<longrightarrow>
        (\<exists>tabs. recentTabs (tabs_onUpdated s tab_url tab_title now st) = Some tabs
           \<and> tabs = take 20 (JObj [(''url'', tab_url), (''title'', tab_title),
                                    (''timestamp'', JNum (of_int now))]
                              # (case recentTabs st of None \<Rightarrow> [] | Some xs \<Rightarrow> xs))
           \<and> tabs ! 0 = JObj [(''url'', tab_url), (''title'', tab_title),
                               (''timestamp'', JNum (of_int now))]
           \<and> length tabs \<le> 20))"
  by (simp add: storePageData_def tabs_onUpdated_def Let_def)

theorem recent_history_capped_witness:
  "\<exists>tabs. recentTabs (tabs_onUpdated (JStr ''complete'') (JStr ''https://example.org/'') (JStr ''Example'') 99
                        \<lparr>visitedSites = None, recentTabs = Some (replicate 20 JNull)\<rparr>) = Some tabs
      \<and> tabs ! 0 = JObj [(''url'', JStr ''https://example.org/''), (''title'', JStr ''Example''),
                          (''timestamp'', JNum 99)]
      \<and> length tabs = 20"
  using recent_history_capped [of "[]" "[]" "[]" 99
      "\<lparr>visitedSites = None, recentTabs = Some (replicate 20 JNull)\<rparr>"
      "JStr ''complete''" "JStr ''https://example.org/''" "JStr ''Example''"]
  by simp

lemma floor_numeral_quotient:
  "\<lfloor>numeral a / numeral b :: rat\<rfloor> = numeral a div numeral b"
  using floor_divide_of_int_eq [of "numeral a" "numeral b", where ?'a = rat] by simp

text \<open>
  C10. Both route generators return three routes in ascending order of duration: each
  route's duration is at most that of the route after it, whatever the random draws
  and however the platform rounds.
\<close>

theorem routes_sorted_by_duration:
  "length (generateMockRoutes fl draws) = 3
   \<and> length (background_getRouteSuggestions fl draws) = 3
   \<and> (\<forall>i. Suc i < 3 \<longrightarrow>
         duration (generateMockRoutes fl draws ! i) \<le> duration (generateMockRoutes fl draws ! Suc i)
       \<and> duration (background_getRouteSuggestions fl draws ! i)
           \<le> duration (background_getRouteSuggestions fl draws ! Suc i))"
proof -
  have a: "sorted (map duration (generateMockRoutes fl draws))"
    and b: "sorted (map duration (background_getRouteSuggestions fl draws))"
    by (simp_all add: generateMockRoutes_def background_getRouteSuggestions_def)
  have la: "length (generateMockRoutes fl draws) = 3"
    and lb: "length (background_getRouteSuggestions fl draws) = 3"
    by (simp_all add: generateMockRoutes_def background_getRouteSuggestions_def)
  have "duration (generateMockRoutes fl draws ! i) \<le> duration (generateMockRoutes fl draws ! Suc i)"
    if "Suc i < 3" for i
    using a la that sorted_nth_mono [of "map duration (generateMockRoutes fl draws)" i "Suc i"]
    by simp
  moreover
  have "duration (background_getRouteSuggestions fl draws ! i)
          \<le> duration (background_getRouteSuggestions fl draws ! Suc i)"
    if "Suc i < 3" for i
    using b lb that sorted_nth_mono [of "map duration (background_getRouteSuggestions fl draws)" i "Suc i"]
    by simp
  ultimately show ?thesis using la lb by blast
qed

text \<open>
  With the draws of \<open>sample_draws\<close> and no rounding the three routes have durations
  39, 22 and 49 in the order of generation; the second route comes first in the result.
\<close>

theorem routes_sorted_by_duration_witness:
  "Suc 0 < 3 \<and> duration (generateMockRoutes exact_arithmetic sample_draws ! 0) = 22
   \<and> duration (generateMockRoutes exact_arithmetic sample_draws ! Suc 0) = 39
   \<and> route_id (generateMockRoutes exact_arithmetic sample_draws ! 0) = ''route_1''
   \<and> duration (generateMockRoutes exact_arithmetic sample_draws ! 0) \<le> duration (generateMockRoutes exact_arithmetic sample_draws ! Suc 0)"
  using routes_sorted_by_duration [of exact_arithmetic sample_draws]
  by (simp add: generateMockRoutes_def mock_route_def upt_rec Math_round_def Let_def
        sample_draws_def exact_arithmetic_def floor_numeral_quotient index_digit_def)

end
